theory Spec2Isabelle
  imports Complex_Main "HOL-Library.Monad_Syntax"
begin

section \<open>Hand-gesture classifier and stabilizer of testing.py\<close>

text \<open>
  The development embeds the decision logic of \<^verbatim>\<open>src/testing.py\<close>: the fist test
  \<^verbatim>\<open>is_roll_gesture\<close>, the classifier \<^verbatim>\<open>get_hand_gesture\<close>, the band mapping
  \<^verbatim>\<open>angle_to_direction\<close>, and the part of \<^verbatim>\<open>main\<close> that runs once per processed
  frame (lines 170 to 228).

  Numbers. Landmark coordinates and clock readings are modelled as \<open>real\<close>: the
  arithmetic of the source (differences, squares, halving, comparison) is read as exact
  arithmetic. Python floats round; on the integer pixel coordinates that the hand
  detector delivers, every quantity compared below is computed without rounding, up to the
  angle, which is only used through \<^verbatim>\<open>angle_to_direction\<close>.
  What the code does with coordinates that are not finite numbers is the subject of a
  second reading of the classifier, further down.

  Exceptions. A Python exception is the value \<open>None\<close> of an \<open>option\<close> result. The only
  exception the modelled code raises itself is \<^verbatim>\<open>IndexError\<close>, from subscripting a
  list that is too short; \<^verbatim>\<open>main\<close> catches every exception alike
  (\<^verbatim>\<open>except Exception: pass\<close>). The drawing calls of lines 194 to 209 read only
  landmarks that the classifier has already read and do not touch the variables modelled
  here; they are left out.
\<close>

subsection \<open>Configuration (lines 29 to 39)\<close>

text \<open>
  The module constants. They are collected in a record, so that the statements below can
  speak about any setting of them; \<open>module_config\<close> holds the values written in the source.
\<close>

record config =
  DIRECTION_THRESHOLD :: real
  MIN_CONFIDENCE_FRAMES :: int
  COOLDOWN_SECONDS :: real
  STABILITY_THRESHOLD :: real

definition module_config :: config where
  "module_config =
     \<lparr>DIRECTION_THRESHOLD = 35, MIN_CONFIDENCE_FRAMES = 1,
      COOLDOWN_SECONDS = 5 / 100, STABILITY_THRESHOLD = 15\<rparr>"

subsection \<open>Landmarks and subscripting\<close>

text \<open>
  \<^verbatim>\<open>hand["lmList"]\<close> is a list of landmarks, each a list of coordinates
  (\<^verbatim>\<open>[x, y, z]\<close> from the detector).
\<close>

type_synonym landmark = "real list"
type_synonym landmarks = "landmark list"

text \<open>\<^verbatim>\<open>xs[i]\<close> for a non-negative literal index: \<open>None\<close> stands for IndexError.\<close>

definition getitem :: "'a list \<Rightarrow> nat \<Rightarrow> 'a option" where
  "getitem xs i = (if i < length xs then Some (xs ! i) else None)"

text \<open>\<^verbatim>\<open>landmarks[i][j]\<close>\<close>

definition coord :: "landmarks \<Rightarrow> nat \<Rightarrow> nat \<Rightarrow> real option" where
  "coord landmarks i j = do { p \<leftarrow> getitem landmarks i; getitem p j }"

subsection \<open>is_roll_gesture (lines 46 to 71)\<close>

definition finger_pairs :: "(nat \<times> nat) list" where
  "finger_pairs = [(8, 6), (12, 10), (16, 14), (20, 18)]"

text \<open>
  The \<^verbatim>\<open>for tip_idx, pip_idx in finger_pairs\<close> loop of lines 59 to 68, as a recursion
  over the pairs still to visit, with the counter \<^verbatim>\<open>fingers_extended\<close> as accumulator.
\<close>

fun finger_loop :: "landmarks \<Rightarrow> real \<Rightarrow> real \<Rightarrow> (nat \<times> nat) list \<Rightarrow> int \<Rightarrow> int option" where
  "finger_loop landmarks wrist_x wrist_y [] fingers_extended = Some fingers_extended"
| "finger_loop landmarks wrist_x wrist_y ((tip_idx, pip_idx) # rest) fingers_extended =
     do {
       tip_x \<leftarrow> coord landmarks tip_idx 0;
       tip_y \<leftarrow> coord landmarks tip_idx 1;
       pip_x \<leftarrow> coord landmarks pip_idx 0;
       pip_y \<leftarrow> coord landmarks pip_idx 1;
       let tip_dist_sq = (tip_x - wrist_x)\<^sup>2 + (tip_y - wrist_y)\<^sup>2;
       let pip_dist_sq = (pip_x - wrist_x)\<^sup>2 + (pip_y - wrist_y)\<^sup>2;
       finger_loop landmarks wrist_x wrist_y rest
         (if tip_dist_sq > pip_dist_sq then fingers_extended + 1 else fingers_extended)
     }"

definition is_roll_gesture :: "landmarks \<Rightarrow> bool option" where
  "is_roll_gesture landmarks =
     do {
       wrist_x \<leftarrow> coord landmarks 0 0;
       wrist_y \<leftarrow> coord landmarks 0 1;
       fingers_extended \<leftarrow> finger_loop landmarks wrist_x wrist_y finger_pairs 0;
       Some (fingers_extended \<le> 2)
     }"

subsection \<open>get_hand_gesture (lines 73 to 101)\<close>

text \<open>
  The three kinds of value the function returns: the string \<^verbatim>\<open>'roll'\<close>, a float angle,
  and Python's \<^verbatim>\<open>None\<close> (here \<open>Neutral\<close>).
\<close>

datatype gesture = Roll | Angle real | Neutral

text \<open>
  \<^verbatim>\<open>math.atan2\<close> and \<^verbatim>\<open>math.degrees\<close> belong to the Python standard library; they are
  given by their mathematical meaning: the angle in \<open>(-pi, pi]\<close> of the point \<open>(x, y)\<close>,
  and the conversion from radians.
\<close>

definition atan2 :: "real \<Rightarrow> real \<Rightarrow> real" where
  "atan2 y x =
     (if 0 < x then arctan (y / x)
      else if x < 0 then (if 0 \<le> y then arctan (y / x) + pi else arctan (y / x) - pi)
      else if 0 < y then pi / 2
      else if y < 0 then - (pi / 2)
      else 0)"

definition degrees :: "real \<Rightarrow> real" where
  "degrees r = r * 180 / pi"

text \<open>Python's \<^verbatim>\<open>a % b\<close> on floats, for a positive \<open>b\<close>: the result has the sign of \<open>b\<close>.\<close>

definition py_mod :: "real \<Rightarrow> real \<Rightarrow> real" where
  "py_mod a b = a - b * of_int \<lfloor>a / b\<rfloor>"

definition get_hand_gesture :: "config \<Rightarrow> landmarks \<Rightarrow> gesture option" where
  "get_hand_gesture cfg landmarks =
     do {
       roll \<leftarrow> is_roll_gesture landmarks;
       if roll then Some Roll
       else do {
         wrist_x \<leftarrow> coord landmarks 0 0;
         wrist_y \<leftarrow> coord landmarks 0 1;
         index_x \<leftarrow> coord landmarks 8 0;
         middle_x \<leftarrow> coord landmarks 12 0;
         let avg_x = (index_x + middle_x) / 2;
         index_y \<leftarrow> coord landmarks 8 1;
         middle_y \<leftarrow> coord landmarks 12 1;
         let avg_y = (index_y + middle_y) / 2;
         let dx = avg_x - wrist_x;
         let dy = avg_y - wrist_y;
         let distance_sq = dx * dx + dy * dy;
         if distance_sq < STABILITY_THRESHOLD cfg * STABILITY_THRESHOLD cfg then Some Neutral
         else
           let angle = degrees (atan2 (- dy) dx)
           in Some (Angle (py_mod (angle + 360) 360))
       }
     }"

subsection \<open>angle_to_direction (lines 103 to 113)\<close>

text \<open>
  The strings \<^verbatim>\<open>'left'\<close>, \<^verbatim>\<open>'right'\<close>, \<^verbatim>\<open>'up'\<close>, \<^verbatim>\<open>'down'\<close>: the values of
  \<^verbatim>\<open>direction\<close> and \<^verbatim>\<open>action\<close> and the keys of \<^verbatim>\<open>last_sent\<close>. Python's \<^verbatim>\<open>None\<close>
  is \<open>None\<close> of \<open>direction option\<close>.
\<close>

datatype direction = Left | Right | Up | Down

definition angle_to_direction :: "config \<Rightarrow> real \<Rightarrow> direction option" where
  "angle_to_direction cfg angle =
     (if angle \<le> DIRECTION_THRESHOLD cfg \<or> angle \<ge> 360 - DIRECTION_THRESHOLD cfg
      then Some Right
      else if 90 - DIRECTION_THRESHOLD cfg \<le> angle \<and> angle \<le> 90 + DIRECTION_THRESHOLD cfg
      then Some Up
      else if 180 - DIRECTION_THRESHOLD cfg \<le> angle \<and> angle \<le> 180 + DIRECTION_THRESHOLD cfg
      then Some Left
      else None)"

subsection \<open>The per-frame body of main (lines 170 to 228)\<close>

text \<open>
  The variables of \<^verbatim>\<open>main\<close> that live across frames: the dictionary \<^verbatim>\<open>last_sent\<close>,
  which always has exactly the four keys, and \<^verbatim>\<open>last_gesture\<close>.
\<close>

record state =
  last_sent :: "direction \<Rightarrow> real"
  last_gesture :: "direction option"

text \<open>Lines 137 and 139.\<close>

definition initial_state :: state where
  "initial_state = \<lparr>last_sent = (\<lambda>_. 0), last_gesture = None\<rparr>"

text \<open>Lines 180 to 185: from the gesture to the candidate \<^verbatim>\<open>direction\<close>.\<close>

definition gesture_direction :: "config \<Rightarrow> gesture \<Rightarrow> direction option" where
  "gesture_direction cfg gesture =
     (case gesture of
        Roll \<Rightarrow> Some Down
      | Angle a \<Rightarrow> angle_to_direction cfg a
      | Neutral \<Rightarrow> None)"

text \<open>
  Lines 188 to 192, the stability check: from \<^verbatim>\<open>direction\<close> and \<^verbatim>\<open>last_gesture\<close> to
  their new values, in this order.
\<close>

definition stability_check ::
  "direction option \<Rightarrow> direction option \<Rightarrow> direction option \<times> direction option" where
  "stability_check direction lg =
     (if direction \<noteq> lg then
        (if direction \<noteq> None then (direction, direction)
         else if lg \<noteq> None then (lg, lg)
         else (direction, lg))
      else (direction, lg))"

text \<open>
  Lines 213 to 215 (and again 219 to 221): one cooldown check at the clock reading \<open>now\<close>,
  on the pair of \<^verbatim>\<open>action\<close> and \<^verbatim>\<open>last_sent\<close>.
\<close>

definition cooldown_check ::
  "config \<Rightarrow> real \<Rightarrow> direction option \<Rightarrow> direction option \<times> (direction \<Rightarrow> real)
     \<Rightarrow> direction option \<times> (direction \<Rightarrow> real)" where
  "cooldown_check cfg now direction acc =
     (case direction of
        None \<Rightarrow> acc
      | Some d \<Rightarrow>
          if now - snd acc d > COOLDOWN_SECONDS cfg then (Some d, (snd acc)(d := now))
          else acc)"

text \<open>
  Lines 211 to 221: the check runs twice, each time after its own call of
  \<^verbatim>\<open>time.time()\<close>; \<open>now1\<close> and \<open>now2\<close> are the two readings. \<^verbatim>\<open>action\<close> is
  \<^verbatim>\<open>None\<close> before (line 170).
\<close>

definition send_checks ::
  "config \<Rightarrow> real \<Rightarrow> real \<Rightarrow> direction option \<Rightarrow> (direction \<Rightarrow> real)
     \<Rightarrow> direction option \<times> (direction \<Rightarrow> real)" where
  "send_checks cfg now1 now2 direction ls =
     cooldown_check cfg now2 direction (cooldown_check cfg now1 direction (None, ls))"

text \<open>
  Lines 187 to 221, the stabilizer: from the candidate \<^verbatim>\<open>direction\<close> to the direction
  after the stability check, the \<^verbatim>\<open>action\<close> to send, and the new state.
\<close>

definition stabilizer ::
  "config \<Rightarrow> state \<Rightarrow> direction option \<Rightarrow> real \<Rightarrow> real
     \<Rightarrow> direction option \<times> direction option \<times> state" where
  "stabilizer cfg st candidate now1 now2 =
     (let (direction, lg) = stability_check candidate (last_gesture st);
          (action, ls) = send_checks cfg now1 now2 direction (last_sent st)
      in (direction, action, \<lparr>last_sent = ls, last_gesture = lg\<rparr>))"

text \<open>Lines 176 to 221, the body of the \<^verbatim>\<open>try\<close>; \<open>None\<close> when it raises.\<close>

definition try_block ::
  "config \<Rightarrow> state \<Rightarrow> landmarks \<Rightarrow> real \<Rightarrow> real
     \<Rightarrow> (direction option \<times> direction option \<times> state) option" where
  "try_block cfg st landmarks now1 now2 =
     do {
       gesture \<leftarrow> get_hand_gesture cfg landmarks;
       Some (stabilizer cfg st (gesture_direction cfg gesture) now1 now2)
     }"

text \<open>
  What one processed frame brings: the detector's list \<^verbatim>\<open>hands\<close> (the \<^verbatim>\<open>lmList\<close> of
  each hand found, empty when there is none) and the two clock readings.
\<close>

record frame =
  hands :: "landmarks list"
  now_first :: real
  now_second :: real

text \<open>
  Lines 170 to 228 for one processed frame: the \<^verbatim>\<open>action\<close> handed to \<^verbatim>\<open>send_key\<close>
  (\<open>None\<close>: no key) and the new state. An exception in the \<^verbatim>\<open>try\<close> is raised by the
  classifier, before any variable is assigned, and is swallowed.
\<close>

definition process_frame :: "config \<Rightarrow> state \<Rightarrow> frame \<Rightarrow> direction option \<times> state" where
  "process_frame cfg st fr =
     (case hands fr of
        [] \<Rightarrow> (None, st)
      | hand # _ \<Rightarrow>
          (case try_block cfg st hand (now_first fr) (now_second fr) of
             None \<Rightarrow> (None, st)
           | Some (direction, action, st') \<Rightarrow> (action, st')))"

text \<open>
  The \<^verbatim>\<open>while True\<close> loop over the processed frames of a session, which ends when the
  camera stops or the user quits: the actions sent, in order, and the final state. Frames
  skipped by line 156 leave \<^verbatim>\<open>last_sent\<close> and \<^verbatim>\<open>last_gesture\<close> alone and are not
  listed.
\<close>

fun run :: "config \<Rightarrow> state \<Rightarrow> frame list \<Rightarrow> direction option list \<times> state" where
  "run cfg st [] = ([], st)"
| "run cfg st (fr # frs) =
     (let (action, st') = process_frame cfg st fr;
          (actions, st'') = run cfg st' frs
      in (action # actions, st''))"

subsection \<open>The classifier on floats with non-finite values\<close>

text \<open>
  The detector is outside the program; should it ever deliver a coordinate that is not a
  finite number, Python computes with it as with any float. To say what the code does
  then, the classifier is read a second time, on values that are a finite number, plus or
  minus infinity, or not-a-number. Finite numbers stay exact, as above; the operations on
  the other values are those of IEEE 754 arithmetic, which Python's floats follow: every
  comparison with not-a-number is false, and an operation with no meaningful result
  (infinity minus infinity, zero times infinity, infinity modulo a number) gives
  not-a-number.
\<close>

datatype pyfloat = Fin real | PInf | NInf | NaN

text \<open>\<^verbatim>\<open>-a\<close>, \<^verbatim>\<open>a + b\<close>, \<^verbatim>\<open>a - b\<close>, \<^verbatim>\<open>a * b\<close>, \<^verbatim>\<open>a ** 2\<close> and \<^verbatim>\<open>a / 2\<close>\<close>

fun f_neg :: "pyfloat \<Rightarrow> pyfloat" where
  "f_neg (Fin x) = Fin (- x)"
| "f_neg PInf = NInf"
| "f_neg NInf = PInf"
| "f_neg NaN = NaN"

fun f_add :: "pyfloat \<Rightarrow> pyfloat \<Rightarrow> pyfloat" where
  "f_add NaN b = NaN"
| "f_add a NaN = NaN"
| "f_add (Fin x) (Fin y) = Fin (x + y)"
| "f_add PInf NInf = NaN"
| "f_add NInf PInf = NaN"
| "f_add PInf b = PInf"
| "f_add a PInf = PInf"
| "f_add NInf b = NInf"
| "f_add a NInf = NInf"

definition f_sub :: "pyfloat \<Rightarrow> pyfloat \<Rightarrow> pyfloat" where
  "f_sub a b = f_add a (f_neg b)"

fun f_mul :: "pyfloat \<Rightarrow> pyfloat \<Rightarrow> pyfloat" where
  "f_mul NaN b = NaN"
| "f_mul a NaN = NaN"
| "f_mul (Fin x) (Fin y) = Fin (x * y)"
| "f_mul (Fin x) PInf = (if x = 0 then NaN else if 0 < x then PInf else NInf)"
| "f_mul (Fin x) NInf = (if x = 0 then NaN else if 0 < x then NInf else PInf)"
| "f_mul PInf (Fin y) = (if y = 0 then NaN else if 0 < y then PInf else NInf)"
| "f_mul NInf (Fin y) = (if y = 0 then NaN else if 0 < y then NInf else PInf)"
| "f_mul PInf PInf = PInf"
| "f_mul PInf NInf = NInf"
| "f_mul NInf PInf = NInf"
| "f_mul NInf NInf = PInf"

definition f_sq :: "pyfloat \<Rightarrow> pyfloat" where
  "f_sq a = f_mul a a"

fun f_half :: "pyfloat \<Rightarrow> pyfloat" where
  "f_half (Fin x) = Fin (x / 2)"
| "f_half a = a"

text \<open>\<^verbatim>\<open>a < b\<close> (and \<^verbatim>\<open>b > a\<close>), \<^verbatim>\<open>a <= b\<close> (and \<^verbatim>\<open>b >= a\<close>)\<close>

fun f_less :: "pyfloat \<Rightarrow> pyfloat \<Rightarrow> bool" where
  "f_less NaN b = False"
| "f_less a NaN = False"
| "f_less (Fin x) (Fin y) = (x < y)"
| "f_less a NInf = False"
| "f_less PInf b = False"
| "f_less NInf b = True"
| "f_less a PInf = True"

fun f_le :: "pyfloat \<Rightarrow> pyfloat \<Rightarrow> bool" where
  "f_le NaN b = False"
| "f_le a NaN = False"
| "f_le (Fin x) (Fin y) = (x \<le> y)"
| "f_le NInf b = True"
| "f_le a PInf = True"
| "f_le a NInf = False"
| "f_le PInf b = False"

text \<open>
  \<^verbatim>\<open>math.atan2\<close>, \<^verbatim>\<open>math.degrees\<close> and \<^verbatim>\<open>a % b\<close> for a finite positive \<open>b\<close>, with
  the values the C library gives at infinity.
\<close>

fun atan2_f :: "pyfloat \<Rightarrow> pyfloat \<Rightarrow> pyfloat" where
  "atan2_f NaN x = NaN"
| "atan2_f y NaN = NaN"
| "atan2_f (Fin y) (Fin x) = Fin (atan2 y x)"
| "atan2_f (Fin y) PInf = Fin 0"
| "atan2_f (Fin y) NInf = Fin (if 0 \<le> y then pi else - pi)"
| "atan2_f PInf (Fin x) = Fin (pi / 2)"
| "atan2_f NInf (Fin x) = Fin (- (pi / 2))"
| "atan2_f PInf PInf = Fin (pi / 4)"
| "atan2_f PInf NInf = Fin (3 * pi / 4)"
| "atan2_f NInf PInf = Fin (- (pi / 4))"
| "atan2_f NInf NInf = Fin (- (3 * pi / 4))"

fun degrees_f :: "pyfloat \<Rightarrow> pyfloat" where
  "degrees_f (Fin r) = Fin (degrees r)"
| "degrees_f a = a"

fun mod_f :: "pyfloat \<Rightarrow> real \<Rightarrow> pyfloat" where
  "mod_f (Fin a) b = Fin (py_mod a b)"
| "mod_f a b = NaN"

text \<open>
  \<^verbatim>\<open>is_roll_gesture\<close>, \<^verbatim>\<open>get_hand_gesture\<close>, \<^verbatim>\<open>angle_to_direction\<close> and the
  \<^verbatim>\<open>try\<close> of \<^verbatim>\<open>main\<close>, line by line as above, on these values. The clock and the
  state are as before.
\<close>

type_synonym float_landmarks = "pyfloat list list"

definition coord_f :: "float_landmarks \<Rightarrow> nat \<Rightarrow> nat \<Rightarrow> pyfloat option" where
  "coord_f landmarks i j = do { p \<leftarrow> getitem landmarks i; getitem p j }"

fun finger_loop_f ::
  "float_landmarks \<Rightarrow> pyfloat \<Rightarrow> pyfloat \<Rightarrow> (nat \<times> nat) list \<Rightarrow> int \<Rightarrow> int option" where
  "finger_loop_f landmarks wrist_x wrist_y [] fingers_extended = Some fingers_extended"
| "finger_loop_f landmarks wrist_x wrist_y ((tip_idx, pip_idx) # rest) fingers_extended =
     do {
       tip_x \<leftarrow> coord_f landmarks tip_idx 0;
       tip_y \<leftarrow> coord_f landmarks tip_idx 1;
       pip_x \<leftarrow> coord_f landmarks pip_idx 0;
       pip_y \<leftarrow> coord_f landmarks pip_idx 1;
       let tip_dist_sq = f_add (f_sq (f_sub tip_x wrist_x)) (f_sq (f_sub tip_y wrist_y));
       let pip_dist_sq = f_add (f_sq (f_sub pip_x wrist_x)) (f_sq (f_sub pip_y wrist_y));
       finger_loop_f landmarks wrist_x wrist_y rest
         (if f_less pip_dist_sq tip_dist_sq then fingers_extended + 1 else fingers_extended)
     }"

definition is_roll_gesture_f :: "float_landmarks \<Rightarrow> bool option" where
  "is_roll_gesture_f landmarks =
     do {
       wrist_x \<leftarrow> coord_f landmarks 0 0;
       wrist_y \<leftarrow> coord_f landmarks 0 1;
       fingers_extended \<leftarrow> finger_loop_f landmarks wrist_x wrist_y finger_pairs 0;
       Some (fingers_extended \<le> 2)
     }"

datatype float_gesture = Roll_f | Angle_f pyfloat | Neutral_f

definition get_hand_gesture_f :: "config \<Rightarrow> float_landmarks \<Rightarrow> float_gesture option" where
  "get_hand_gesture_f cfg landmarks =
     do {
       roll \<leftarrow> is_roll_gesture_f landmarks;
       if roll then Some Roll_f
       else do {
         wrist_x \<leftarrow> coord_f landmarks 0 0;
         wrist_y \<leftarrow> coord_f landmarks 0 1;
         index_x \<leftarrow> coord_f landmarks 8 0;
         middle_x \<leftarrow> coord_f landmarks 12 0;
         let avg_x = f_half (f_add index_x middle_x);
         index_y \<leftarrow> coord_f landmarks 8 1;
         middle_y \<leftarrow> coord_f landmarks 12 1;
         let avg_y = f_half (f_add index_y middle_y);
         let dx = f_sub avg_x wrist_x;
         let dy = f_sub avg_y wrist_y;
         let distance_sq = f_add (f_mul dx dx) (f_mul dy dy);
         if f_less distance_sq (Fin (STABILITY_THRESHOLD cfg * STABILITY_THRESHOLD cfg))
         then Some Neutral_f
         else
           let angle = degrees_f (atan2_f (f_neg dy) dx)
           in Some (Angle_f (mod_f (f_add angle (Fin 360)) 360))
       }
     }"

definition angle_to_direction_f :: "config \<Rightarrow> pyfloat \<Rightarrow> direction option" where
  "angle_to_direction_f cfg angle =
     (if f_le angle (Fin (DIRECTION_THRESHOLD cfg))
         \<or> f_le (Fin (360 - DIRECTION_THRESHOLD cfg)) angle
      then Some Right
      else if f_le (Fin (90 - DIRECTION_THRESHOLD cfg)) angle
              \<and> f_le angle (Fin (90 + DIRECTION_THRESHOLD cfg))
      then Some Up
      else if f_le (Fin (180 - DIRECTION_THRESHOLD cfg)) angle
              \<and> f_le angle (Fin (180 + DIRECTION_THRESHOLD cfg))
      then Some Left
      else None)"

definition gesture_direction_f :: "config \<Rightarrow> float_gesture \<Rightarrow> direction option" where
  "gesture_direction_f cfg gesture =
     (case gesture of
        Roll_f \<Rightarrow> Some Down
      | Angle_f a \<Rightarrow> angle_to_direction_f cfg a
      | Neutral_f \<Rightarrow> None)"

definition try_block_f ::
  "config \<Rightarrow> state \<Rightarrow> float_landmarks \<Rightarrow> real \<Rightarrow> real
     \<Rightarrow> (direction option \<times> direction option \<times> state) option" where
  "try_block_f cfg st landmarks now1 now2 =
     do {
       gesture \<leftarrow> get_hand_gesture_f cfg landmarks;
       Some (stabilizer cfg st (gesture_direction_f cfg gesture) now1 now2)
     }"


section \<open>The vocabulary of the specification\<close>

text \<open>
  The definitions of this section follow the words of the specification; they are what
  the code above is compared with.
\<close>

subsection \<open>Angular bands\<close>

text \<open>
  The band of half-width \<open>\<theta>\<close> centred on 0 and 360 degrees, on 90 degrees, and on
  180 degrees.
\<close>

definition right_band :: "real \<Rightarrow> real \<Rightarrow> bool" where
  "right_band \<theta> a \<longleftrightarrow> a \<le> 0 + \<theta> \<or> 360 - \<theta> \<le> a"

definition up_band :: "real \<Rightarrow> real \<Rightarrow> bool" where
  "up_band \<theta> a \<longleftrightarrow> 90 - \<theta> \<le> a \<and> a \<le> 90 + \<theta>"

definition left_band :: "real \<Rightarrow> real \<Rightarrow> bool" where
  "left_band \<theta> a \<longleftrightarrow> 180 - \<theta> \<le> a \<and> a \<le> 180 + \<theta>"

subsection \<open>Landmark sets\<close>

text \<open>A landmark set: 21 points, each with at least its x and y coordinate.\<close>

definition valid_landmarks :: "landmarks \<Rightarrow> bool" where
  "valid_landmarks lm \<longleftrightarrow> length lm = 21 \<and> (\<forall>p \<in> set lm. 2 \<le> length p)"

text \<open>Squared Euclidean distance of two points.\<close>

definition dist_sq :: "landmark \<Rightarrow> landmark \<Rightarrow> real" where
  "dist_sq p q = (q ! 0 - p ! 0)\<^sup>2 + (q ! 1 - p ! 1)\<^sup>2"

text \<open>
  A finger, given by the indices of its tip and its proximal joint, is extended iff the
  tip is farther from the wrist (landmark 0) than the joint.
\<close>

definition finger_extended :: "landmarks \<Rightarrow> nat \<times> nat \<Rightarrow> bool" where
  "finger_extended lm = (\<lambda>(tip, pip). dist_sq (lm ! 0) (lm ! tip) > dist_sq (lm ! 0) (lm ! pip))"

text \<open>How many of index, middle, ring and pinky finger are extended.\<close>

definition extended_count :: "landmarks \<Rightarrow> nat" where
  "extended_count lm =
     length (filter (finger_extended lm) [(8, 6), (12, 10), (16, 14), (20, 18)])"

text \<open>All landmarks moved by the same offset \<open>(ox, oy)\<close>.\<close>

definition translate :: "real \<Rightarrow> real \<Rightarrow> landmarks \<Rightarrow> landmarks" where
  "translate ox oy lm =
     map (\<lambda>p. case p of x # y # rest \<Rightarrow> (x + ox) # (y + oy) # rest | _ \<Rightarrow> p) lm"

text \<open>
  Squared length of the vector from the wrist to the midpoint of the index tip
  (landmark 8) and the middle tip (landmark 12).
\<close>

definition midpoint_dist_sq :: "landmarks \<Rightarrow> real" where
  "midpoint_dist_sq lm =
     ((lm ! 8 ! 0 + lm ! 12 ! 0) / 2 - lm ! 0 ! 0)\<^sup>2
     + ((lm ! 8 ! 1 + lm ! 12 ! 1) / 2 - lm ! 0 ! 1)\<^sup>2"

text \<open>
  A landmark set of finite numbers and a gesture, seen as float values; a landmark set of
  float values with 21 points of at least two coordinates each.
\<close>

definition as_floats :: "landmarks \<Rightarrow> float_landmarks" where
  "as_floats lm = map (map Fin) lm"

fun as_float_gesture :: "gesture \<Rightarrow> float_gesture" where
  "as_float_gesture Roll = Roll_f"
| "as_float_gesture (Angle a) = Angle_f (Fin a)"
| "as_float_gesture Neutral = Neutral_f"


subsection \<open>Frames and the single cooldown check\<close>

text \<open>
  A frame with a hand whose gesture is ambiguous or out of band: the classifier returns,
  and the candidate direction is \<^verbatim>\<open>None\<close>.
\<close>

definition ambiguous_frame :: "config \<Rightarrow> frame \<Rightarrow> bool" where
  "ambiguous_frame cfg fr =
     (case hands fr of
        [] \<Rightarrow> False
      | hand # _ \<Rightarrow>
          (case get_hand_gesture cfg hand of
             None \<Rightarrow> False
           | Some gesture \<Rightarrow> gesture_direction cfg gesture = None))"

text \<open>
  The stabilizer as the specification reads it: the stability check, then the cooldown
  check once, at one clock reading.
\<close>

definition stabilizer_single ::
  "config \<Rightarrow> state \<Rightarrow> direction option \<Rightarrow> real
     \<Rightarrow> direction option \<times> direction option \<times> state" where
  "stabilizer_single cfg st candidate now =
     (let (direction, lg) = stability_check candidate (last_gesture st);
          (action, ls) = cooldown_check cfg now direction (None, last_sent st)
      in (direction, action, \<lparr>last_sent = ls, last_gesture = lg\<rparr>))"

subsection \<open>Sample inputs\<close>

text \<open>
  A closed hand: wrist at \<open>(50, 50)\<close>, only the pinky tip farther from the wrist than
  its joint.
\<close>

definition fist_hand :: landmarks where
  "fist_hand =
     [[50, 50], [0, 0], [0, 0], [0, 0], [0, 0],
      [0, 0], [60, 50], [0, 0], [55, 50],
      [0, 0], [60, 52], [0, 0], [55, 51],
      [0, 0], [60, 54], [0, 0], [56, 53],
      [0, 0], [58, 56], [0, 0], [70, 60]]"

text \<open>An open hand held small: all four fingers extended, the tips close to the wrist.\<close>

definition near_hand :: landmarks where
  "near_hand =
     [[50, 50], [0, 0], [0, 0], [0, 0], [0, 0],
      [0, 0], [52, 50], [0, 0], [56, 50],
      [0, 0], [52, 51], [0, 0], [56, 52],
      [0, 0], [52, 52], [0, 0], [55, 54],
      [0, 0], [51, 53], [0, 0], [53, 55]]"

text \<open>An open hand pointing to the left of the image: the tips at the height of the wrist.\<close>

definition left_hand :: landmarks where
  "left_hand =
     [[100, 50], [0, 0], [0, 0], [0, 0], [0, 0],
      [0, 0], [70, 50], [0, 0], [40, 50],
      [0, 0], [70, 50], [0, 0], [40, 50],
      [0, 0], [72, 52], [0, 0], [45, 55],
      [0, 0], [75, 55], [0, 0], [50, 60]]"




text \<open>A configuration with colliding bands and a negative cooldown.\<close>

definition bad_config :: config where
  "bad_config = module_config\<lparr>DIRECTION_THRESHOLD := 50, COOLDOWN_SECONDS := - 1\<rparr>"

text \<open>The configuration of the source with 3 confidence frames asked for.\<close>

definition slow_config :: config where
  "slow_config = module_config\<lparr>MIN_CONFIDENCE_FRAMES := 3\<rparr>"

text \<open>A state in which \<^verbatim>\<open>left\<close> is held and was last sent at time 10.\<close>

definition left_state :: state where
  "left_state = \<lparr>last_sent = (\<lambda>_. 10), last_gesture = Some Left\<rparr>"

definition fist_frame :: "real \<Rightarrow> frame" where
  "fist_frame t = \<lparr>hands = [fist_hand], now_first = t, now_second = t\<rparr>"

definition near_frame :: "real \<Rightarrow> frame" where
  "near_frame t = \<lparr>hands = [near_hand], now_first = t, now_second = t\<rparr>"


text \<open>A frame showing the hand that points left, and a frame without a hand.\<close>

definition left_frame :: "real \<Rightarrow> frame" where
  "left_frame t = \<lparr>hands = [left_hand], now_first = t, now_second = t\<rparr>"

definition no_hand_frame :: "real \<Rightarrow> frame" where
  "no_hand_frame t = \<lparr>hands = [], now_first = t, now_second = t\<rparr>"

section \<open>Properties\<close>

subsection \<open>Reading valid landmark sets\<close>

lemma coord_valid:
  assumes "valid_landmarks lm" and "i < 21" and "j < 2"
  shows "coord lm i j = Some (lm ! i ! j)"
proof -
  from assms have "lm ! i \<in> set lm"
    by (simp add: valid_landmarks_def)
  with assms have "2 \<le> length (lm ! i)"
    by (simp add: valid_landmarks_def)
  with assms have "j < length (lm ! i)"
    by simp
  with assms show ?thesis
    by (simp add: valid_landmarks_def coord_def getitem_def)
qed

lemma is_roll_gesture_valid:
  assumes "valid_landmarks lm"
  shows "is_roll_gesture lm = Some (extended_count lm \<le> 2)"
  by (simp add: is_roll_gesture_def finger_pairs_def coord_valid [OF assms]
      extended_count_def finger_extended_def dist_sq_def Let_def)

lemma get_hand_gesture_roll:
  "is_roll_gesture lm = Some True \<Longrightarrow> get_hand_gesture cfg lm = Some Roll"
  by (simp add: get_hand_gesture_def)

lemma translate_valid: "valid_landmarks lm \<Longrightarrow> valid_landmarks (translate ox oy lm)"
  by (auto simp: valid_landmarks_def translate_def split: list.splits)

lemma translate_nth:
  assumes "valid_landmarks lm" and "i < 21"
  shows "translate ox oy lm ! i ! 0 = lm ! i ! 0 + ox"
    and "translate ox oy lm ! i ! 1 = lm ! i ! 1 + oy"
    and "translate ox oy lm ! i ! Suc 0 = lm ! i ! Suc 0 + oy"
proof -
  from assms have "lm ! i \<in> set lm"
    by (simp add: valid_landmarks_def)
  with assms have "2 \<le> length (lm ! i)"
    by (simp add: valid_landmarks_def)
  then obtain x y rest where p: "lm ! i = x # y # rest"
    by (cases "lm ! i"; cases "tl (lm ! i)") auto
  from assms have "translate ox oy lm ! i = (x + ox) # (y + oy) # rest"
    by (simp add: translate_def valid_landmarks_def p)
  then show "translate ox oy lm ! i ! 0 = lm ! i ! 0 + ox"
    and "translate ox oy lm ! i ! 1 = lm ! i ! 1 + oy"
    and "translate ox oy lm ! i ! Suc 0 = lm ! i ! Suc 0 + oy"
    by (simp_all add: p)
qed

lemma extended_count_translate:
  assumes "valid_landmarks lm"
  shows "extended_count (translate ox oy lm) = extended_count lm"
  by (simp add: extended_count_def finger_extended_def dist_sq_def translate_nth [OF assms])

lemma fist_hand_valid: "valid_landmarks fist_hand"
  by (simp add: valid_landmarks_def fist_hand_def)

lemma fist_hand_count: "extended_count fist_hand = 1"
  by (simp add: extended_count_def finger_extended_def dist_sq_def fist_hand_def)

subsection \<open>The angular bands\<close>

text \<open>
  Claim C1. For a half-width \<open>\<theta>\<close> below 45 degrees, the bands centred on 0/360, 90
  and 180 degrees are pairwise disjoint; an angle outside the three bands maps to
  \<^verbatim>\<open>None\<close>; \<^verbatim>\<open>angle_to_direction\<close> never gives down; and, the half-width being a
  width (not negative), the angles 0, 90 and 180 map to right, up and left. The statement
  holds for every real angle, so for the angle of every landmark set.
\<close>

theorem angle_bands:
  assumes "DIRECTION_THRESHOLD cfg < 45"
  shows "\<not> (right_band (DIRECTION_THRESHOLD cfg) a \<and> up_band (DIRECTION_THRESHOLD cfg) a)
       \<and> \<not> (right_band (DIRECTION_THRESHOLD cfg) a \<and> left_band (DIRECTION_THRESHOLD cfg) a)
       \<and> \<not> (up_band (DIRECTION_THRESHOLD cfg) a \<and> left_band (DIRECTION_THRESHOLD cfg) a)
       \<and> (0 \<le> DIRECTION_THRESHOLD cfg \<longrightarrow>
            angle_to_direction cfg 0 = Some Right
            \<and> angle_to_direction cfg 90 = Some Up
            \<and> angle_to_direction cfg 180 = Some Left)
       \<and> (\<not> right_band (DIRECTION_THRESHOLD cfg) a \<and> \<not> up_band (DIRECTION_THRESHOLD cfg) a
            \<and> \<not> left_band (DIRECTION_THRESHOLD cfg) a \<longrightarrow> angle_to_direction cfg a = None)
       \<and> angle_to_direction cfg a \<noteq> Some Down"
  using assms by (simp add: right_band_def up_band_def left_band_def angle_to_direction_def)

theorem angle_bands_witness:
  "0 \<le> DIRECTION_THRESHOLD module_config \<and> DIRECTION_THRESHOLD module_config < 45
   \<and> \<not> right_band 35 270 \<and> \<not> up_band 35 270 \<and> \<not> left_band 35 270
   \<and> angle_to_direction module_config 0 = Some Right
   \<and> angle_to_direction module_config 90 = Some Up
   \<and> angle_to_direction module_config 180 = Some Left
   \<and> angle_to_direction module_config 270 = None"
  using angle_bands [of module_config 270]
  by (simp add: module_config_def right_band_def up_band_def left_band_def)

subsection \<open>The fist\<close>

text \<open>
  Claim C2. For every landmark set with at most 2 of the 4 non-thumb fingers extended,
  the classifier returns \<^verbatim>\<open>'roll'\<close>, and it does so as well after all landmarks are
  moved by any common offset.
\<close>

theorem roll_classification:
  assumes "valid_landmarks lm" and "extended_count lm \<le> 2"
  shows "get_hand_gesture cfg lm = Some Roll
       \<and> get_hand_gesture cfg (translate ox oy lm) = Some Roll"
proof
  from assms show "get_hand_gesture cfg lm = Some Roll"
    by (simp add: get_hand_gesture_roll is_roll_gesture_valid)
  have "valid_landmarks (translate ox oy lm)"
    using assms(1) by (rule translate_valid)
  moreover have "extended_count (translate ox oy lm) \<le> 2"
    using assms by (simp add: extended_count_translate)
  ultimately show "get_hand_gesture cfg (translate ox oy lm) = Some Roll"
    by (simp add: get_hand_gesture_roll is_roll_gesture_valid)
qed

theorem roll_classification_witness:
  "valid_landmarks fist_hand \<and> extended_count fist_hand \<le> 2
   \<and> get_hand_gesture module_config fist_hand = Some Roll
   \<and> get_hand_gesture module_config (translate 100 (- 20) fist_hand) = Some Roll"
  using roll_classification [of fist_hand module_config 100 "- 20"]
  by (simp add: fist_hand_valid fist_hand_count)

subsection \<open>The stability check\<close>

lemma stability_check_adopt:
  "candidate \<noteq> None \<Longrightarrow> stability_check candidate lg = (candidate, candidate)"
  by (simp add: stability_check_def)

lemma stability_check_hold:
  "lg \<noteq> None \<Longrightarrow> stability_check None lg = (lg, lg)"
  by (simp add: stability_check_def)

lemma stabilizer_direction:
  "fst (stabilizer cfg st candidate now1 now2) = fst (stability_check candidate (last_gesture st))"
  by (simp add: stabilizer_def split: prod.splits)

lemma stabilizer_last_gesture:
  "last_gesture (snd (snd (stabilizer cfg st candidate now1 now2)))
     = snd (stability_check candidate (last_gesture st))"
  by (simp add: stabilizer_def split: prod.splits)

subsection \<open>The cooldown\<close>

text \<open>When both clock readings of a frame are the same, the second check changes nothing.\<close>

lemma send_checks_single:
  "send_checks cfg now now a ls = cooldown_check cfg now a (None, ls)"
  by (simp add: send_checks_def cooldown_check_def split: option.splits)

text \<open>
  With two readings of a clock that does not run backwards, the frame sends its direction
  iff the cooldown has passed at the second reading.
\<close>

lemma send_checks_two_readings:
  assumes "now1 \<le> now2"
  shows "fst (send_checks cfg now1 now2 (Some d) ls)
         = (if now2 - ls d > COOLDOWN_SECONDS cfg then Some d else None)"
  using assms by (simp add: send_checks_def cooldown_check_def)

text \<open>
  With two different readings the second check can pass after the first has: the time
  stored is then the second reading. Here the direction was last sent at 10 and the
  readings are 11 and 11.06.
\<close>

lemma send_checks_second_reading:
  "send_checks module_config 11 (1106 / 100) (Some Left) (\<lambda>_. 10)
     = (Some Left, (\<lambda>_. 10)(Left := 1106 / 100))"
  by (simp add: send_checks_def cooldown_check_def module_config_def)

lemma stabilizer_Some:
  "stabilizer cfg st (Some d) now now =
     (Some d,
      (if now - last_sent st d > COOLDOWN_SECONDS cfg then Some d else None),
      \<lparr>last_sent = (if now - last_sent st d > COOLDOWN_SECONDS cfg
                    then (last_sent st)(d := now) else last_sent st),
       last_gesture = Some d\<rparr>)"
  by (simp add: stabilizer_def stability_check_adopt send_checks_single cooldown_check_def)

text \<open>
  Claim C4. For a frame with the direction \<open>a\<close> after the stability check and the clock
  reading \<open>now\<close>: \<open>a\<close> is sent iff it is not \<^verbatim>\<open>None\<close> and \<open>now\<close> minus
  \<^verbatim>\<open>last_sent[a]\<close> exceeds the cooldown; when it is sent, \<^verbatim>\<open>last_sent[a]\<close> becomes
  \<open>now\<close> and no other entry changes; when nothing is sent, and so always for \<^verbatim>\<open>None\<close>,
  \<^verbatim>\<open>last_sent\<close> is unchanged; and a left frame followed by a right frame, each with its
  own cooldown passed, both send, however close in time they are.
\<close>

theorem cooldown_rule:
  "(\<forall>d. fst (send_checks cfg now now a ls) = Some d
         \<longleftrightarrow> a = Some d \<and> now - ls d > COOLDOWN_SECONDS cfg)
   \<and> (\<forall>d. fst (send_checks cfg now now a ls) = Some d \<longrightarrow>
         snd (send_checks cfg now now a ls) = ls(d := now))
   \<and> (fst (send_checks cfg now now a ls) = None \<longrightarrow> snd (send_checks cfg now now a ls) = ls)
   \<and> send_checks cfg now now None ls = (None, ls)
   \<and> (t1 - last_sent st Left > COOLDOWN_SECONDS cfg
        \<and> t2 - last_sent st Right > COOLDOWN_SECONDS cfg \<longrightarrow>
       (case stabilizer cfg st (Some Left) t1 t1 of (d1, a1, st1) \<Rightarrow>
        case stabilizer cfg st1 (Some Right) t2 t2 of (d2, a2, st2) \<Rightarrow>
          a1 = Some Left \<and> a2 = Some Right))"
proof (intro conjI allI impI)
  fix d
  show "fst (send_checks cfg now now a ls) = Some d
         \<longleftrightarrow> a = Some d \<and> now - ls d > COOLDOWN_SECONDS cfg"
    by (auto simp: send_checks_single cooldown_check_def split: option.splits)
next
  fix d
  assume "fst (send_checks cfg now now a ls) = Some d"
  then show "snd (send_checks cfg now now a ls) = ls(d := now)"
    by (auto simp: send_checks_single cooldown_check_def split: option.splits if_splits)
next
  assume "fst (send_checks cfg now now a ls) = None"
  then show "snd (send_checks cfg now now a ls) = ls"
    by (auto simp: send_checks_single cooldown_check_def split: option.splits if_splits)
next
  show "send_checks cfg now now None ls = (None, ls)"
    by (simp add: send_checks_single cooldown_check_def)
next
  assume "t1 - last_sent st Left > COOLDOWN_SECONDS cfg
        \<and> t2 - last_sent st Right > COOLDOWN_SECONDS cfg"
  then show "case stabilizer cfg st (Some Left) t1 t1 of (d1, a1, st1) \<Rightarrow>
        case stabilizer cfg st1 (Some Right) t2 t2 of (d2, a2, st2) \<Rightarrow>
          a1 = Some Left \<and> a2 = Some Right"
    by (simp add: stabilizer_Some)
qed

theorem cooldown_rule_witness:
  "fst (send_checks module_config 11 11 (Some Left) (last_sent left_state)) = Some Left
  \<and> snd (send_checks module_config 11 11 (Some Left) (last_sent left_state)) Left = 11
  \<and> snd (send_checks module_config 11 11 (Some Left) (last_sent left_state)) Right = 10
  \<and> fst (send_checks module_config (1001 / 100) (1001 / 100) (Some Left) (last_sent left_state))
      = None
  \<and> snd (send_checks module_config (1001 / 100) (1001 / 100) (Some Left) (last_sent left_state))
      = last_sent left_state
  \<and> 11 - last_sent left_state Left > COOLDOWN_SECONDS module_config
  \<and> (1101 / 100) - last_sent left_state Right > COOLDOWN_SECONDS module_config
  \<and> (case stabilizer module_config left_state (Some Left) 11 11 of (d1, a1, st1) \<Rightarrow>
        case stabilizer module_config st1 (Some Right) (1101 / 100) (1101 / 100) of
          (d2, a2, st2) \<Rightarrow> a1 = Some Left \<and> a2 = Some Right)"
  using
    cooldown_rule [of module_config 11 "Some Left" "last_sent left_state" 11 left_state
      "1101 / 100"]
    cooldown_rule [of module_config "1001 / 100" "Some Left" "last_sent left_state" 11
      left_state "1101 / 100"]
  by (simp add: left_state_def module_config_def)

text \<open>
  Claim C9. For a frame evaluated at one clock reading, running the cooldown check twice,
  as the source does, gives the same direction, the same action and the same state as
  running it once.
\<close>

theorem duplicate_check_redundant:
  "stabilizer cfg st candidate now now = stabilizer_single cfg st candidate now"
  by (simp add: stabilizer_def stabilizer_single_def send_checks_single)

subsection \<open>The small open hand\<close>

lemma near_hand_valid: "valid_landmarks near_hand"
  by (simp add: valid_landmarks_def near_hand_def)

lemma near_hand_count: "extended_count near_hand = 4"
  by (simp add: extended_count_def finger_extended_def dist_sq_def near_hand_def)

lemma near_hand_midpoint: "midpoint_dist_sq near_hand = 37"
  by (simp add: midpoint_dist_sq_def near_hand_def power2_eq_square)

lemma fist_hand_midpoint: "midpoint_dist_sq fist_hand = 101 / 4"
  by (simp add: midpoint_dist_sq_def fist_hand_def power2_eq_square)

text \<open>What the classifier returns for a landmark set with more than 2 fingers extended.\<close>

lemma get_hand_gesture_open:
  assumes "valid_landmarks lm" and "2 < extended_count lm"
  shows "get_hand_gesture cfg lm =
     (if midpoint_dist_sq lm < STABILITY_THRESHOLD cfg * STABILITY_THRESHOLD cfg
      then Some Neutral
      else Some (Angle (py_mod (degrees (atan2 (- ((lm ! 8 ! 1 + lm ! 12 ! 1) / 2 - lm ! 0 ! 1))
           ((lm ! 8 ! 0 + lm ! 12 ! 0) / 2 - lm ! 0 ! 0)) + 360) 360)))"
  using assms(2)
  by (simp add: get_hand_gesture_def is_roll_gesture_valid [OF assms(1)]
      coord_valid [OF assms(1)] midpoint_dist_sq_def power2_eq_square Let_def)

text \<open>
  Claim C5, as stated, fails: the closed hand \<open>fist_hand\<close> has its finger-tip midpoint
  within the stability distance of the wrist, and the classifier returns \<^verbatim>\<open>'roll'\<close>,
  not \<^verbatim>\<open>None\<close>, because the fist test comes first (line 79).
\<close>

theorem ambiguous_counterexample:
  "valid_landmarks fist_hand
   \<and> midpoint_dist_sq fist_hand
       < STABILITY_THRESHOLD module_config * STABILITY_THRESHOLD module_config
   \<and> get_hand_gesture module_config fist_hand = Some Roll
   \<and> get_hand_gesture module_config fist_hand \<noteq> Some Neutral"
  by (simp add: fist_hand_valid fist_hand_midpoint get_hand_gesture_roll is_roll_gesture_valid
      fist_hand_count) (simp add: module_config_def)

text \<open>
  Claim C5, amended. For every landmark set that is not a fist (more than 2 of the 4
  fingers extended), if the vector from the wrist to the midpoint of index tip and middle
  tip has squared length below the square of the stability distance, the classifier
  returns \<^verbatim>\<open>None\<close>.
\<close>

theorem ambiguous_when_open:
  assumes "valid_landmarks lm" and "2 < extended_count lm"
    and "midpoint_dist_sq lm < STABILITY_THRESHOLD cfg * STABILITY_THRESHOLD cfg"
  shows "get_hand_gesture cfg lm = Some Neutral"
  using assms by (simp add: get_hand_gesture_open)

theorem ambiguous_when_open_witness:
  "valid_landmarks near_hand \<and> 2 < extended_count near_hand
   \<and> midpoint_dist_sq near_hand
       < STABILITY_THRESHOLD module_config * STABILITY_THRESHOLD module_config
   \<and> get_hand_gesture module_config near_hand = Some Neutral"
  using ambiguous_when_open [of near_hand module_config]
  by (simp add: near_hand_valid near_hand_count near_hand_midpoint module_config_def)

subsection \<open>The angle\<close>

text \<open>An angle returned by the classifier lies in \<open>[0, 360)\<close>.\<close>

lemma py_mod_range: "0 \<le> py_mod a 360 \<and> py_mod a 360 < 360"
proof -
  have "of_int \<lfloor>a / 360\<rfloor> \<le> a / 360" and "a / 360 < of_int \<lfloor>a / 360\<rfloor> + 1"
    by linarith+
  then show ?thesis
    by (simp add: py_mod_def field_simps)
qed

lemma get_hand_gesture_angle_range:
  "get_hand_gesture cfg lm = Some (Angle a) \<Longrightarrow> 0 \<le> a \<and> a < 360"
  by (auto simp: get_hand_gesture_def Let_def py_mod_range
      split: bind_splits if_splits)

text \<open>The hand pointing left is read as 180 degrees, and so as left.\<close>

lemma left_hand_valid: "valid_landmarks left_hand"
  by (simp add: valid_landmarks_def left_hand_def)

lemma left_hand_count: "extended_count left_hand = 4"
  by (simp add: extended_count_def finger_extended_def dist_sq_def left_hand_def)

lemma left_hand_angle: "get_hand_gesture module_config left_hand = Some (Angle 180)"
proof -
  have "midpoint_dist_sq left_hand = 3600"
    by (simp add: midpoint_dist_sq_def left_hand_def power2_eq_square)
  moreover have "py_mod (degrees (atan2 0 (- 60)) + 360) 360 = 180"
    by (simp add: atan2_def degrees_def py_mod_def)
  ultimately show ?thesis
    by (simp add: get_hand_gesture_open left_hand_valid left_hand_count module_config_def)
      (simp add: left_hand_def)
qed

lemma try_block_left_hand:
  "try_block module_config st left_hand t u = Some (stabilizer module_config st (Some Left) t u)"
  by (simp add: try_block_def left_hand_angle gesture_direction_def)
    (simp add: angle_to_direction_def module_config_def)

subsection \<open>The float reading agrees with the exact one\<close>

text \<open>On landmark sets of finite numbers both readings of the classifier give the same.\<close>

lemma coord_f_as_floats: "coord_f (as_floats lm) i j = map_option Fin (coord lm i j)"
  by (simp add: coord_f_def coord_def as_floats_def getitem_def)

lemma finger_loop_f_as_floats:
  "finger_loop_f (as_floats lm) (Fin wx) (Fin wy) pairs acc = finger_loop lm wx wy pairs acc"
proof (induction pairs arbitrary: acc)
  case Nil
  show ?case by simp
next
  case (Cons pr pairs)
  obtain tip pip where pr: "pr = (tip, pip)" by (cases pr)
  show ?case
    by (cases "coord lm tip 0"; cases "coord lm tip (Suc 0)"; cases "coord lm pip 0";
        cases "coord lm pip (Suc 0)")
      (simp_all add: pr coord_f_as_floats Cons.IH f_sub_def f_sq_def power2_eq_square)
qed

lemma is_roll_gesture_f_as_floats: "is_roll_gesture_f (as_floats lm) = is_roll_gesture lm"
  by (cases "coord lm 0 0"; cases "coord lm 0 (Suc 0)")
    (simp_all add: is_roll_gesture_f_def is_roll_gesture_def coord_f_as_floats
      finger_loop_f_as_floats)

lemma get_hand_gesture_f_as_floats:
  "get_hand_gesture_f cfg (as_floats lm) = map_option as_float_gesture (get_hand_gesture cfg lm)"
proof (cases "is_roll_gesture lm")
  case None
  then show ?thesis
    by (simp add: get_hand_gesture_f_def get_hand_gesture_def is_roll_gesture_f_as_floats)
next
  case (Some roll)
  show ?thesis
  proof (cases roll)
    case True
    with Some show ?thesis
      by (simp add: get_hand_gesture_f_def get_hand_gesture_def is_roll_gesture_f_as_floats)
  next
    case False
    with Some show ?thesis
      by (cases "coord lm 0 0"; cases "coord lm 0 (Suc 0)"; cases "coord lm 8 0";
          cases "coord lm 12 0"; cases "coord lm 8 (Suc 0)"; cases "coord lm 12 (Suc 0)")
        (simp_all add: get_hand_gesture_f_def get_hand_gesture_def is_roll_gesture_f_as_floats
          coord_f_as_floats f_sub_def Let_def)
  qed
qed

lemma gesture_direction_f_as_float:
  "gesture_direction_f cfg (as_float_gesture g) = gesture_direction cfg g"
  by (cases g)
    (simp_all add: gesture_direction_f_def gesture_direction_def angle_to_direction_f_def
      angle_to_direction_def)

lemma try_block_f_as_floats:
  "try_block_f cfg st (as_floats lm) now1 now2 = try_block cfg st lm now1 now2"
  by (cases "get_hand_gesture cfg lm")
    (simp_all add: try_block_f_def try_block_def get_hand_gesture_f_as_floats
      gesture_direction_f_as_float)

subsection \<open>Landmark lists that are not 21 finite points\<close>





text \<open>
  With a wrist that is not-a-number every distance is not-a-number, no comparison holds,
  and no finger counts as extended.
\<close>

lemma f_add_NaN [simp]: "f_add a NaN = NaN"
  by (cases a) simp_all








subsection \<open>Configuration values\<close>

lemma fist_hand_roll: "get_hand_gesture cfg fist_hand = Some Roll"
  by (simp add: get_hand_gesture_roll is_roll_gesture_valid fist_hand_valid fist_hand_count)

lemma near_hand_neutral: "get_hand_gesture module_config near_hand = Some Neutral"
  by (simp add: get_hand_gesture_open near_hand_valid near_hand_count near_hand_midpoint
      module_config_def)

lemma try_block_near_hand:
  "try_block module_config st near_hand t u = Some (stabilizer module_config st None t u)"
  by (simp add: try_block_def near_hand_neutral gesture_direction_def)

text \<open>
  Claim C6, as stated, fails: nothing checks the configuration. With a threshold of 50
  degrees and a cooldown of -1 second the session starts from the usual initial state and
  its first frame sends a key; at 135 degrees, which lies in the up band and in the left
  band, the earlier branch (up) wins.
\<close>

theorem configuration_counterexample:
  "45 \<le> DIRECTION_THRESHOLD bad_config \<and> COOLDOWN_SECONDS bad_config < 0
   \<and> fst (process_frame bad_config initial_state (fist_frame 0)) = Some Down
   \<and> angle_to_direction bad_config 135 = Some Up
   \<and> left_band (DIRECTION_THRESHOLD bad_config) 135"
  by (simp add: bad_config_def module_config_def process_frame_def try_block_def fist_frame_def
      fist_hand_roll gesture_direction_def stabilizer_Some initial_state_def
      angle_to_direction_def left_band_def)

text \<open>
  Claim C6, amended. The configuration written in the source is valid (threshold
  35 below 45 and not negative, cooldown 0.05 not negative). No value is rejected or
  clamped: whatever the threshold, every angle up to it maps to right, and whatever the
  cooldown, a direction is sent exactly when the time since it was last sent exceeds it.
\<close>

theorem configuration_unchecked:
  "0 \<le> DIRECTION_THRESHOLD module_config \<and> DIRECTION_THRESHOLD module_config < 45
   \<and> 0 \<le> COOLDOWN_SECONDS module_config
   \<and> (angle \<le> DIRECTION_THRESHOLD cfg \<longrightarrow> angle_to_direction cfg angle = Some Right)
   \<and> (now - ls d > COOLDOWN_SECONDS cfg \<longrightarrow>
        fst (send_checks cfg now now (Some d) ls) = Some d)
   \<and> (now - ls d \<le> COOLDOWN_SECONDS cfg \<longrightarrow>
        fst (send_checks cfg now now (Some d) ls) = None)"
  by (simp add: module_config_def angle_to_direction_def send_checks_single cooldown_check_def)

theorem configuration_unchecked_witness:
  "47 \<le> DIRECTION_THRESHOLD bad_config \<and> angle_to_direction bad_config 47 = Some Right
   \<and> 10 - last_sent left_state Left > COOLDOWN_SECONDS bad_config
   \<and> fst (send_checks bad_config 10 10 (Some Left) (last_sent left_state)) = Some Left
   \<and> 9 - last_sent left_state Left \<le> COOLDOWN_SECONDS bad_config
   \<and> fst (send_checks bad_config 9 9 (Some Left) (last_sent left_state)) = None"
  using configuration_unchecked [of 47 bad_config 10 "last_sent left_state" Left]
    configuration_unchecked [of 47 bad_config 9 "last_sent left_state" Left]
  by (simp add: bad_config_def module_config_def left_state_def)

subsection \<open>MIN_CONFIDENCE_FRAMES\<close>

text \<open>
  Claim C8, as stated, fails: with \<^verbatim>\<open>MIN_CONFIDENCE_FRAMES\<close> set to 3, the first frame
  that shows a fist is adopted as \<^verbatim>\<open>last_gesture\<close> and sent at once.
\<close>

theorem confidence_frames_counterexample:
  "MIN_CONFIDENCE_FRAMES slow_config = 3
   \<and> last_gesture initial_state = None
   \<and> last_gesture (snd (process_frame slow_config initial_state (fist_frame 100))) = Some Down
   \<and> fst (process_frame slow_config initial_state (fist_frame 100)) = Some Down"
  by (simp add: slow_config_def module_config_def process_frame_def try_block_def fist_frame_def
      fist_hand_roll gesture_direction_def stabilizer_Some initial_state_def)

lemma cooldown_check_confidence:
  "cooldown_check (cfg\<lparr>MIN_CONFIDENCE_FRAMES := n\<rparr>) now a acc = cooldown_check cfg now a acc"
  by (cases a) (simp_all add: cooldown_check_def)

lemma stabilizer_confidence:
  "stabilizer (cfg\<lparr>MIN_CONFIDENCE_FRAMES := n\<rparr>) st candidate now1 now2
     = stabilizer cfg st candidate now1 now2"
  by (simp add: stabilizer_def send_checks_def cooldown_check_confidence)

lemma get_hand_gesture_confidence:
  "get_hand_gesture (cfg\<lparr>MIN_CONFIDENCE_FRAMES := n\<rparr>) lm = get_hand_gesture cfg lm"
  by (simp add: get_hand_gesture_def cong: if_cong)

lemma gesture_direction_confidence:
  "gesture_direction (cfg\<lparr>MIN_CONFIDENCE_FRAMES := n\<rparr>) g = gesture_direction cfg g"
  by (cases g) (simp_all add: gesture_direction_def angle_to_direction_def)

lemma try_block_confidence:
  "try_block (cfg\<lparr>MIN_CONFIDENCE_FRAMES := n\<rparr>) st lm now1 now2 = try_block cfg st lm now1 now2"
  by (simp add: try_block_def get_hand_gesture_confidence gesture_direction_confidence
      stabilizer_confidence)

text \<open>
  Claim C8, amended. The value of \<^verbatim>\<open>MIN_CONFIDENCE_FRAMES\<close> has no effect on the
  stabilizer or on the processing of a frame, and for every value a candidate that is not
  \<^verbatim>\<open>None\<close> is adopted as \<^verbatim>\<open>last_gesture\<close> in the frame in which it appears.
\<close>

theorem confidence_frames_unused:
  "stabilizer (cfg\<lparr>MIN_CONFIDENCE_FRAMES := n\<rparr>) st candidate now1 now2
     = stabilizer cfg st candidate now1 now2
   \<and> process_frame (cfg\<lparr>MIN_CONFIDENCE_FRAMES := n\<rparr>) st fr = process_frame cfg st fr
   \<and> (candidate \<noteq> None \<longrightarrow>
        last_gesture (snd (snd (stabilizer cfg st candidate now1 now2))) = candidate)"
  by (simp add: stabilizer_confidence process_frame_def try_block_confidence
      stabilizer_last_gesture stability_check_adopt split: list.splits)

theorem confidence_frames_unused_witness:
  "stabilizer slow_config initial_state (Some Left) 100 100
     = stabilizer module_config initial_state (Some Left) 100 100
   \<and> process_frame slow_config initial_state (fist_frame 100)
     = process_frame module_config initial_state (fist_frame 100)
   \<and> last_gesture (snd (snd (stabilizer module_config initial_state (Some Left) 100 100)))
     = Some Left"
  using confidence_frames_unused [where cfg = module_config and n = 3
      and st = initial_state and candidate = "Some Left" and ?now1.0 = 100 and ?now2.0 = 100
      and fr = "fist_frame 100"]
  by (simp add: slow_config_def)

subsection \<open>A held direction is never released\<close>

lemma send_checks_action:
  "fst (send_checks cfg now1 now2 (Some d) ls)
     = (if now1 - ls d > COOLDOWN_SECONDS cfg \<or> now2 - ls d > COOLDOWN_SECONDS cfg
        then Some d else None)"
  by (simp add: send_checks_def cooldown_check_def)

lemma stability_check_keeps_held:
  "lg \<noteq> None \<Longrightarrow> snd (stability_check candidate lg) \<noteq> None"
  by (simp add: stability_check_def)

lemma process_frame_keeps_held:
  assumes "last_gesture st \<noteq> None"
  shows "last_gesture (snd (process_frame cfg st fr)) \<noteq> None"
proof (cases "hands fr")
  case Nil
  with assms show ?thesis by (simp add: process_frame_def)
next
  case (Cons hand others)
  show ?thesis
  proof (cases "get_hand_gesture cfg hand")
    case None
    with Cons assms show ?thesis by (simp add: process_frame_def try_block_def)
  next
    case (Some gesture)
    obtain d a st' where s: "stabilizer cfg st (gesture_direction cfg gesture)
        (now_first fr) (now_second fr) = (d, a, st')"
      by (cases "stabilizer cfg st (gesture_direction cfg gesture) (now_first fr) (now_second fr)")
    have "last_gesture st' = snd (stability_check (gesture_direction cfg gesture) (last_gesture st))"
      using stabilizer_last_gesture [of cfg st "gesture_direction cfg gesture" "now_first fr" "now_second fr"]
      by (simp add: s)
    with assms have "last_gesture st' \<noteq> None"
      by (simp add: stability_check_keeps_held)
    with Cons Some s show ?thesis
      by (simp add: process_frame_def try_block_def)
  qed
qed

lemma run_keeps_held:
  "last_gesture st \<noteq> None \<Longrightarrow> last_gesture (snd (run cfg st frs)) \<noteq> None"
proof (induction frs arbitrary: st)
  case Nil
  then show ?case by simp
next
  case (Cons fr frs)
  from Cons.prems have "last_gesture (snd (process_frame cfg st fr)) \<noteq> None"
    by (rule process_frame_keeps_held)
  then have "last_gesture (snd (run cfg (snd (process_frame cfg st fr)) frs)) \<noteq> None"
    by (rule Cons.IH)
  then show ?case
    by (simp add: split_def Let_def)
qed

lemma process_frame_ambiguous:
  assumes "ambiguous_frame cfg fr" and "last_gesture st = Some d"
  shows "fst (process_frame cfg st fr)
           = (if now_first fr - last_sent st d > COOLDOWN_SECONDS cfg
                 \<or> now_second fr - last_sent st d > COOLDOWN_SECONDS cfg
              then Some d else None)"
    and "last_gesture (snd (process_frame cfg st fr)) = Some d"
  using assms
  by (auto simp: ambiguous_frame_def process_frame_def try_block_def stabilizer_def
      stability_check_hold send_checks_action split_def
      split: list.splits option.splits)

lemma run_ambiguous:
  "\<forall>fr \<in> set frs. ambiguous_frame cfg fr \<Longrightarrow> last_gesture st = Some d
   \<Longrightarrow> last_gesture (snd (run cfg st frs)) = Some d"
proof (induction frs arbitrary: st)
  case Nil
  then show ?case by simp
next
  case (Cons fr frs)
  from Cons.prems have "last_gesture (snd (process_frame cfg st fr)) = Some d"
    by (simp add: process_frame_ambiguous)
  with Cons.prems have "last_gesture (snd (run cfg (snd (process_frame cfg st fr)) frs)) = Some d"
    by (simp add: Cons.IH)
  then show ?case
    by (simp add: split_def Let_def)
qed

text \<open>
  Claim C10. Once \<^verbatim>\<open>last_gesture\<close> is not \<^verbatim>\<open>None\<close>, it is not \<^verbatim>\<open>None\<close> after any
  further frames. Over a run of any length of ambiguous frames with a hand present the
  held direction \<open>d\<close> stays held, and each further such frame sends \<open>d\<close> as soon as one
  of its clock readings is more than the cooldown after \<open>d\<close> was last sent, and nothing
  otherwise.
\<close>

theorem held_direction_never_released:
  "(last_gesture st \<noteq> None \<longrightarrow> last_gesture (snd (run cfg st frs)) \<noteq> None)
   \<and> (last_gesture st = Some d \<and> (\<forall>fr \<in> set frs. ambiguous_frame cfg fr)
        \<and> ambiguous_frame cfg fr' \<longrightarrow>
      last_gesture (snd (run cfg st frs)) = Some d
      \<and> fst (process_frame cfg (snd (run cfg st frs)) fr')
          = (if now_first fr' - last_sent (snd (run cfg st frs)) d > COOLDOWN_SECONDS cfg
                \<or> now_second fr' - last_sent (snd (run cfg st frs)) d > COOLDOWN_SECONDS cfg
             then Some d else None)
      \<and> last_gesture (snd (process_frame cfg (snd (run cfg st frs)) fr')) = Some d)"
  by (simp add: run_keeps_held run_ambiguous process_frame_ambiguous)

lemma near_frame_ambiguous: "ambiguous_frame module_config (near_frame t)"
  by (simp add: ambiguous_frame_def near_frame_def near_hand_neutral gesture_direction_def)

lemma near_frame_step:
  "process_frame module_config \<lparr>last_sent = ls, last_gesture = Some d\<rparr> (near_frame t)
     = (if t - ls d > 5 / 100 then Some d else None,
        \<lparr>last_sent = (if t - ls d > 5 / 100 then ls(d := t) else ls), last_gesture = Some d\<rparr>)"
  by (simp add: process_frame_def try_block_def near_frame_def near_hand_neutral
      gesture_direction_def stabilizer_def stability_check_hold send_checks_single
      cooldown_check_def)
    (simp add: module_config_def)

theorem held_direction_never_released_witness:
  "last_gesture left_state = Some Left
   \<and> ambiguous_frame module_config (near_frame 11)
   \<and> ambiguous_frame module_config (near_frame (1102 / 100))
   \<and> ambiguous_frame module_config (near_frame (1108 / 100))
   \<and> ambiguous_frame module_config (near_frame (1114 / 100))
   \<and> fst (run module_config left_state
            [near_frame 11, near_frame (1102 / 100), near_frame (1108 / 100)])
       = [Some Left, None, Some Left]
   \<and> last_gesture (snd (run module_config left_state
            [near_frame 11, near_frame (1102 / 100), near_frame (1108 / 100)])) = Some Left
   \<and> fst (process_frame module_config (snd (run module_config left_state
            [near_frame 11, near_frame (1102 / 100), near_frame (1108 / 100)]))
          (near_frame (1114 / 100))) = Some Left"
  using held_direction_never_released [of left_state module_config
      "[near_frame 11, near_frame (1102 / 100), near_frame (1108 / 100)]" Left
      "near_frame (1114 / 100)"]
  by (simp add: near_frame_ambiguous left_state_def near_frame_step)

subsection \<open>Hysteresis\<close>

lemma left_frame_step:
  "process_frame module_config \<lparr>last_sent = ls, last_gesture = lg\<rparr> (left_frame t)
     = (if t - ls Left > 5 / 100 then Some Left else None,
        \<lparr>last_sent = (if t - ls Left > 5 / 100 then ls(Left := t) else ls),
         last_gesture = Some Left\<rparr>)"
  by (simp add: process_frame_def left_frame_def try_block_left_hand stabilizer_Some)
    (simp add: module_config_def)

lemma no_hand_frame_step: "process_frame cfg st (no_hand_frame t) = (None, st)"
  by (simp add: process_frame_def no_hand_frame_def)

text \<open>
  Claim C3, as stated, fails for an ambiguous frame that has no hand: the stability check
  stands inside \<^verbatim>\<open>if hands:\<close>, so such a frame substitutes nothing. From a state
  holding left, the frames left, no hand, left at 11.00, 11.06 and 11.12 send left,
  nothing, left; with a hand that shows no clear gesture in the middle frame all three
  send left.
\<close>

theorem hysteresis_no_hand_counterexample:
  "last_gesture left_state = Some Left
   \<and> fst (run module_config left_state
        [left_frame 11, no_hand_frame (1106 / 100), left_frame (1112 / 100)])
       = [Some Left, None, Some Left]
   \<and> fst (run module_config left_state
        [left_frame 11, near_frame (1106 / 100), left_frame (1112 / 100)])
       = [Some Left, Some Left, Some Left]"
  by (simp add: left_state_def left_frame_step no_hand_frame_step near_frame_step)

text \<open>
  Claim C3, amended. The stabilizer is evaluated on the frames in which a hand is present
  and the classifier returns. In every such evaluation, a candidate that is not
  \<^verbatim>\<open>None\<close> and differs from \<^verbatim>\<open>last_gesture\<close> becomes \<^verbatim>\<open>last_gesture\<close> (and the
  direction of the frame) at once; a \<^verbatim>\<open>None\<close> candidate is replaced by a held
  \<^verbatim>\<open>last_gesture\<close>. From any state, and so from one that holds left, the candidates
  left, \<^verbatim>\<open>None\<close>, left of three frames with a hand give the direction left on each of
  them, whatever the clock readings. A frame without a hand is no evaluation of the
  stabilizer: it sends nothing and leaves the state, and with it \<^verbatim>\<open>last_gesture\<close>, as
  it was.
\<close>

theorem hysteresis_rule:
  "(candidate \<noteq> last_gesture st \<and> candidate \<noteq> None \<longrightarrow>
      last_gesture (snd (snd (stabilizer cfg st candidate now1 now2))) = candidate
      \<and> fst (stabilizer cfg st candidate now1 now2) = candidate)
   \<and> (last_gesture st \<noteq> None \<longrightarrow>
      fst (stabilizer cfg st None now1 now2) = last_gesture st
      \<and> last_gesture (snd (snd (stabilizer cfg st None now1 now2))) = last_gesture st)
   \<and> (case stabilizer cfg st (Some Left) t1 u1 of (d1, a1, st1) \<Rightarrow>
       case stabilizer cfg st1 None t2 u2 of (d2, a2, st2) \<Rightarrow>
       case stabilizer cfg st2 (Some Left) t3 u3 of (d3, a3, st3) \<Rightarrow>
         d1 = Some Left \<and> d2 = Some Left \<and> d3 = Some Left
         \<and> last_gesture st1 = Some Left \<and> last_gesture st2 = Some Left
         \<and> last_gesture st3 = Some Left)
   \<and> (hands fr = hand # others \<and> get_hand_gesture cfg hand = Some gesture \<longrightarrow>
       process_frame cfg st fr
         = snd (stabilizer cfg st (gesture_direction cfg gesture) (now_first fr) (now_second fr)))
   \<and> (hands fr0 = [] \<longrightarrow> process_frame cfg st fr0 = (None, st))"
proof (intro conjI impI)
  assume "candidate \<noteq> last_gesture st \<and> candidate \<noteq> None"
  then show "last_gesture (snd (snd (stabilizer cfg st candidate now1 now2))) = candidate"
    and "fst (stabilizer cfg st candidate now1 now2) = candidate"
    by (simp_all add: stabilizer_direction stabilizer_last_gesture stability_check_adopt)
next
  assume "last_gesture st \<noteq> None"
  then show "fst (stabilizer cfg st None now1 now2) = last_gesture st"
    and "last_gesture (snd (snd (stabilizer cfg st None now1 now2))) = last_gesture st"
    by (simp_all add: stabilizer_direction stabilizer_last_gesture stability_check_hold)
next
  show "case stabilizer cfg st (Some Left) t1 u1 of (d1, a1, st1) \<Rightarrow>
       case stabilizer cfg st1 None t2 u2 of (d2, a2, st2) \<Rightarrow>
       case stabilizer cfg st2 (Some Left) t3 u3 of (d3, a3, st3) \<Rightarrow>
         d1 = Some Left \<and> d2 = Some Left \<and> d3 = Some Left
         \<and> last_gesture st1 = Some Left \<and> last_gesture st2 = Some Left
         \<and> last_gesture st3 = Some Left"
    by (simp add: stabilizer_def stability_check_def split: prod.splits)
next
  assume "hands fr = hand # others \<and> get_hand_gesture cfg hand = Some gesture"
  then show "process_frame cfg st fr
         = snd (stabilizer cfg st (gesture_direction cfg gesture) (now_first fr) (now_second fr))"
    by (simp add: process_frame_def try_block_def split: prod.splits)
next
  assume "hands fr0 = []"
  then show "process_frame cfg st fr0 = (None, st)"
    by (simp add: process_frame_def)
qed

theorem hysteresis_rule_witness:
  "Some Right \<noteq> last_gesture left_state \<and> last_gesture left_state \<noteq> None
   \<and> last_gesture (snd (snd (stabilizer module_config left_state (Some Right) 11 11))) = Some Right
   \<and> fst (stabilizer module_config left_state (Some Right) 11 11) = Some Right
   \<and> fst (stabilizer module_config left_state None 11 11) = Some Left
   \<and> last_gesture (snd (snd (stabilizer module_config left_state None 11 11))) = Some Left
   \<and> hands (near_frame 11) = [near_hand]
   \<and> get_hand_gesture module_config near_hand = Some Neutral
   \<and> process_frame module_config left_state (near_frame 11)
       = snd (stabilizer module_config left_state None 11 11)
   \<and> hands (no_hand_frame 11) = []
   \<and> process_frame module_config left_state (no_hand_frame 11) = (None, left_state)"
  using hysteresis_rule [where candidate = "Some Right" and st = left_state
      and cfg = module_config and ?now1.0 = 11 and ?now2.0 = 11 and fr = "near_frame 11"
      and hand = near_hand and others = "[]" and gesture = Neutral
      and ?fr0.0 = "no_hand_frame 11"]
  by (simp add: left_state_def near_frame_def no_hand_frame_def near_hand_neutral
      gesture_direction_def)

end
